theory Spec2Isabelle
  imports Complex_Main
begin

section \<open>Go values the provider handles\<close>

text \<open>
  A \<^verbatim>\<open>float64\<close>: a finite value is given by the rational number it denotes (the sign
  of zero is not kept), the other values are the two infinities and NaN. The provider
  never computes with a \<^verbatim>\<open>float64\<close>, it only stores what \<^verbatim>\<open>strconv.ParseFloat\<close> and the
  JSON decoder hand over.
\<close>

datatype float64 = Finite rat | PosInf | NegInf | NaN

text \<open>The error values of the library calls the provider makes.\<close>

datatype go_error = ErrSyntax | ErrRange | JSONSyntaxError | UnmarshalTypeError

text \<open>
  The run-time panics of the provider: a type assertion \<^verbatim>\<open>v.(T)\<close> without the comma-ok
  form on a value of another dynamic type (or on nil), an index beyond a slice's length,
  a field read or method call through a nil pointer.
\<close>

datatype panic = TypeAssertionFailed | IndexOutOfRange | NilDereference

text \<open>
  What \<^verbatim>\<open>encoding/json\<close> decodes into an \<^verbatim>\<open>interface{}\<close>: nil, bool, float64, string,
  \<^verbatim>\<open>[]interface{}\<close> and \<^verbatim>\<open>map[string]interface{}\<close>. A Go map is given as the list of its
  entries in the order the \<^verbatim>\<open>range\<close> loop over it visits them; Go leaves that order open,
  so a property of the provider is stated for every list. The keys of a Go map are
  distinct; a lookup \<^verbatim>\<open>m[k]\<close> is \<open>map_of m k\<close>.
\<close>

datatype json =
    JNull
  | JBool bool
  | JNumber float64
  | JString string
  | JArray "json list"
  | JObject "(string \<times> json) list"

type_synonym jobject = "(string \<times> json) list"

subsection \<open>Package watcher: the types the provider fills\<close>

text \<open>
  \<^verbatim>\<open>watcher.CPU\<close> and \<^verbatim>\<open>watcher.Memory\<close> are the two resource types; of
  \<^verbatim>\<open>watcher.Window\<close> the provider reads the field \<^verbatim>\<open>Duration\<close> only.
\<close>

datatype ResourceType = CPU | Memory

record Metric =
  Name :: string
  Type :: ResourceType
  Rollup :: string
  Value :: float64

record Window =
  Duration :: string

type_synonym HostMetrics = "string \<rightharpoonup> Metric list"

subsection \<open>Package-level variables and constants\<close>

record Config =
  promHost :: string
  promToken :: string
  promTokenPresent :: bool

definition promHostKey :: string where
  "promHostKey = ''PROM_HOST''"

definition promTokenKey :: string where
  "promTokenKey = ''PROM_TOKEN''"

definition promQuery :: string where
  "promQuery = ''/api/v1/query?query=''"

definition prom_std_method :: string where
  "prom_std_method = ''stddev_over_time''"

definition prom_avg_method :: string where
  "prom_avg_method = ''avg_over_time''"

definition prom_cpu_metric :: string where
  "prom_cpu_metric = ''instance:node_cpu:ratio''"

definition prom_mem_metric :: string where
  "prom_mem_metric = ''instance:node_memory_utilisation:ratio''"

text \<open>
  \<^verbatim>\<open>init\<close>: \<^verbatim>\<open>os.LookupEnv\<close> gives the empty string and false for a variable that is not set.
\<close>

definition init :: "(string \<rightharpoonup> string) \<Rightarrow> Config" where
  "init env =
     \<lparr>promHost = (case env promHostKey of None \<Rightarrow> ''prometheus-k8s:9090'' | Some h \<Rightarrow> h),
      promToken = (case env promTokenKey of None \<Rightarrow> [] | Some t \<Rightarrow> t),
      promTokenPresent = (case env promTokenKey of None \<Rightarrow> False | Some t \<Rightarrow> True)\<rparr>"

subsection \<open>The library calls, as parameters\<close>

text \<open>
  \<^verbatim>\<open>strconv.ParseFloat(s, 64)\<close> returns a value and an error; \<^verbatim>\<open>http.NewRequest\<close> returns
  nil and an error when \<^verbatim>\<open>url.Parse\<close> rejects the URL. Both belong to Go's library and are
  parameters of the model: \<open>ParseFloat\<close> is the function itself, \<open>url_Parse_ok\<close> says
  which strings \<^verbatim>\<open>url.Parse\<close> accepts.
\<close>

record Lib =
  ParseFloat :: "string \<Rightarrow> float64 \<times> go_error option"
  url_Parse_ok :: "string \<Rightarrow> bool"

record Request =
  Method :: string
  URL :: string
  Header :: "(string \<times> string) list"

text \<open>
  A response: its status code, and its body as \<^verbatim>\<open>json.Decoder\<close> reads it, \<open>None\<close> when
  the body does not start with a well-formed JSON value.
\<close>

record Response =
  StatusCode :: int
  Body :: "json option"

text \<open>
  \<^verbatim>\<open>promClient\<close> wraps the \<^verbatim>\<open>http.Client\<close>; \<^verbatim>\<open>client.Do\<close> returns a nil response (and an
  error) when the request could not be carried out.
\<close>

record promClient =
  client_Do :: "Request \<Rightarrow> Response option"

definition StatusOK :: int where
  "StatusOK = 200"

definition Header_Set :: "(string \<times> string) list \<Rightarrow> string \<Rightarrow> string \<Rightarrow> (string \<times> string) list" where
  "Header_Set h k v = (k, v) # filter (\<lambda>kv. fst kv \<noteq> k) h"

definition NewRequest :: "Lib \<Rightarrow> string \<Rightarrow> string \<Rightarrow> Request option" where
  "NewRequest L method url =
     (if url_Parse_ok L url then Some \<lparr>Method = method, URL = url, Header = []\<rparr> else None)"

text \<open>
  \<^verbatim>\<open>Decode(&res)\<close> with \<^verbatim>\<open>res\<close> a nil \<^verbatim>\<open>map[string]map[string]interface{}\<close>. A body that is
  not well-formed JSON leaves \<^verbatim>\<open>res\<close> nil; so does a top-level value that is not an
  object. Inside a top-level object, a member that is an object becomes an inner map, any
  other member becomes a nil inner map (with an \<^verbatim>\<open>UnmarshalTypeError\<close> unless it is null)
  and decoding goes on. A nil map is read like an empty one.
\<close>

fun inner_map :: "json \<Rightarrow> jobject" where
  "inner_map (JObject m) = m"
| "inner_map v = []"

fun decodes_to_map :: "json \<Rightarrow> bool" where
  "decodes_to_map (JObject m) = True"
| "decodes_to_map JNull = True"
| "decodes_to_map v = False"

fun Decode :: "json option \<Rightarrow> (string \<times> jobject) list \<times> go_error option" where
  "Decode None = ([], Some JSONSyntaxError)"
| "Decode (Some (JObject kvs)) =
     (map (\<lambda>kv. (fst kv, inner_map (snd kv))) kvs,
      if list_all (\<lambda>kv. decodes_to_map (snd kv)) kvs then None else Some UnmarshalTypeError)"
| "Decode (Some JNull) = ([], None)"
| "Decode (Some v) = ([], Some UnmarshalTypeError)"

section \<open>The provider\<close>

subsection \<open>promdata2metric\<close>

text \<open>
  \<^verbatim>\<open>v.([]interface{})[1].(string)\<close>: the assertion to a slice, then the index, then the
  assertion to a string, each with its panic.
\<close>

definition value_string :: "json \<Rightarrow> panic + string" where
  "value_string v =
     (case v of
        JArray xs \<Rightarrow>
          (if 1 < length xs
           then (case xs ! 1 of JString s \<Rightarrow> Inr s | _ \<Rightarrow> Inl TypeAssertionFailed)
           else Inl IndexOutOfRange)
      | _ \<Rightarrow> Inl TypeAssertionFailed)"

text \<open>
  \<^verbatim>\<open>v.(map[string]interface {})["instance"].(string)\<close>: a missing key reads as nil, on
  which the assertion to a string panics as it does on any value that is not a string.
\<close>

definition instance_string :: "jobject \<Rightarrow> panic + string" where
  "instance_string m =
     (case map_of m ''instance'' of
        Some (JString h) \<Rightarrow> Inr h
      | _ \<Rightarrow> Inl TypeAssertionFailed)"

text \<open>One round of the loop over the entries of \<^verbatim>\<open>promdata\<close>, on the pair of
  \<^verbatim>\<open>curMetric\<close> and \<^verbatim>\<open>curHost\<close>. The error of \<^verbatim>\<open>ParseFloat\<close> is dropped.\<close>

definition range_step :: "Lib \<Rightarrow> Metric \<times> string \<Rightarrow> string \<times> json \<Rightarrow> panic + Metric \<times> string" where
  "range_step L st kv =
     (if fst kv = ''metric''
      then (case snd kv of
              JObject m \<Rightarrow>
                (case instance_string m of
                   Inl p \<Rightarrow> Inl p
                 | Inr h \<Rightarrow> Inr (fst st, h))
            | _ \<Rightarrow> Inr st)
      else (case value_string (snd kv) of
              Inl p \<Rightarrow> Inl p
            | Inr s \<Rightarrow> Inr ((fst st)\<lparr>Value := fst (ParseFloat L s)\<rparr>, snd st)))"

fun range_loop :: "Lib \<Rightarrow> jobject \<Rightarrow> Metric \<times> string \<Rightarrow> panic + Metric \<times> string" where
  "range_loop L [] st = Inr st"
| "range_loop L (kv # kvs) st =
     (case range_step L st kv of
        Inl p \<Rightarrow> Inl p
      | Inr st' \<Rightarrow> range_loop L kvs st')"

definition promdata2metric :: "Lib \<Rightarrow> jobject \<Rightarrow> string \<Rightarrow> string \<Rightarrow> string \<Rightarrow> panic + Metric \<times> string" where
  "promdata2metric L promdata metric method rollup =
     range_loop L promdata
       (\<lparr>Name = method,
         Type = (if metric = prom_cpu_metric then CPU else Memory),
         Rollup = rollup,
         Value = Finite 0\<rparr>, [])"

subsection \<open>updateAllHostMetrics\<close>

text \<open>\<^verbatim>\<open>hostMetrics[curHost] = append(hostMetrics[curHost], curMetric)\<close>; a host that is
  not in the map yet reads as the nil slice.\<close>

definition metrics_of :: "HostMetrics \<Rightarrow> string \<Rightarrow> Metric list" where
  "metrics_of hostMetrics h = (case hostMetrics h of None \<Rightarrow> [] | Some ms \<Rightarrow> ms)"

definition append_metric :: "HostMetrics \<Rightarrow> string \<Rightarrow> Metric \<Rightarrow> HostMetrics" where
  "append_metric hostMetrics curHost curMetric =
     hostMetrics(curHost \<mapsto> metrics_of hostMetrics curHost @ [curMetric])"

text \<open>The query URL, \<^verbatim>\<open>fmt.Sprintf("http://%s%s%s(%s[%s])", promHost, promQuery, method,
  metric, rollup)\<close>: every verb is \<^verbatim>\<open>%s\<close> on a string, so the operands are copied as they
  are.\<close>

definition promURLStr :: "Config \<Rightarrow> string \<Rightarrow> string \<Rightarrow> string \<Rightarrow> string" where
  "promURLStr cfg method metric rollup =
     ''http://'' @ promHost cfg @ promQuery @ method @ ''('' @ metric @ ''['' @ rollup @ ''])''"

text \<open>The loop over the elements of a \<^verbatim>\<open>[]interface{}\<close> result: each element is asserted
  to be a map, converted, and appended under its host.\<close>

fun result_loop :: "Lib \<Rightarrow> json list \<Rightarrow> string \<Rightarrow> string \<Rightarrow> string \<Rightarrow> HostMetrics \<Rightarrow> panic + HostMetrics" where
  "result_loop L [] metric method rollup hostMetrics = Inr hostMetrics"
| "result_loop L (prom_metric # rest) metric method rollup hostMetrics =
     (case prom_metric of
        JObject e \<Rightarrow>
          (case promdata2metric L e metric method rollup of
             Inl p \<Rightarrow> Inl p
           | Inr cur \<Rightarrow>
               result_loop L rest metric method rollup
                 (append_metric hostMetrics (snd cur) (fst cur)))
      | _ \<Rightarrow> Inl TypeAssertionFailed)"

text \<open>\<^verbatim>\<open>res["data"]["result"]\<close> with its comma-ok result.\<close>

definition data_result :: "(string \<times> jobject) list \<Rightarrow> json option" where
  "data_result res =
     map_of (case map_of res ''data'' of None \<Rightarrow> [] | Some d \<Rightarrow> d) ''result''"

text \<open>The part of \<^verbatim>\<open>updateAllHostMetrics\<close> after the status check: decoding and the type
  switch. The decoding error is logged only; logging is not modelled.\<close>

definition fold_body :: "Lib \<Rightarrow> json option \<Rightarrow> string \<Rightarrow> string \<Rightarrow> string \<Rightarrow> HostMetrics \<Rightarrow> panic + HostMetrics" where
  "fold_body L body metric method rollup hostMetrics =
     (case data_result (fst (Decode body)) of
        Some promdata \<Rightarrow>
          (case promdata of
             JArray xs \<Rightarrow> result_loop L xs metric method rollup hostMetrics
           | JObject e \<Rightarrow>
               (case promdata2metric L e metric method rollup of
                  Inl p \<Rightarrow> Inl p
                | Inr cur \<Rightarrow> Inr (append_metric hostMetrics (snd cur) (fst cur)))
           | _ \<Rightarrow> Inr hostMetrics)
      | None \<Rightarrow> Inr hostMetrics)"

text \<open>The request as it is sent: the method, the URL, the content type and, when a token
  is configured, the bearer token.\<close>

definition with_headers :: "Config \<Rightarrow> Request \<Rightarrow> Request" where
  "with_headers cfg req =
     (let req1 = req\<lparr>Header := Header_Set (Header req) ''Content-Type'' ''application/json''\<rparr>
      in if promTokenPresent cfg
         then req1\<lparr>Header := Header_Set (Header req1) ''Authorization'' (''Bearer '' @ promToken cfg)\<rparr>
         else req1)"

text \<open>The errors of \<^verbatim>\<open>http.NewRequest\<close> and of \<^verbatim>\<open>client.Do\<close> are dropped; the request and
  the response are used as they come, so a nil one panics at its first use
  (\<^verbatim>\<open>req.Header\<close>, \<^verbatim>\<open>resp.StatusCode\<close>).\<close>

definition updateAllHostMetrics ::
  "Lib \<Rightarrow> Config \<Rightarrow> promClient \<Rightarrow> HostMetrics \<Rightarrow> string \<Rightarrow> string \<Rightarrow> string \<Rightarrow> panic + HostMetrics" where
  "updateAllHostMetrics L cfg s hostMetrics metric method rollup =
     (case NewRequest L ''GET'' (promURLStr cfg method metric rollup) of
        None \<Rightarrow> Inl NilDereference
      | Some req \<Rightarrow>
          (case client_Do s (with_headers cfg req) of
             None \<Rightarrow> Inl NilDereference
           | Some resp \<Rightarrow>
               if StatusCode resp \<noteq> StatusOK then Inr hostMetrics
               else fold_body L (Body resp) metric method rollup hostMetrics))"

subsection \<open>FetchAllHostsMetrics\<close>

text \<open>The inner loop over the two metrics and the outer loop over the two methods. The
  window is a pointer: reading \<^verbatim>\<open>window.Duration\<close> through a nil one panics.\<close>

fun metric_loop ::
  "Lib \<Rightarrow> Config \<Rightarrow> promClient \<Rightarrow> Window option \<Rightarrow> string \<Rightarrow> string list \<Rightarrow> HostMetrics \<Rightarrow> panic + HostMetrics" where
  "metric_loop L cfg s window method [] hostMetrics = Inr hostMetrics"
| "metric_loop L cfg s window method (metric # metrics) hostMetrics =
     (case window of
        None \<Rightarrow> Inl NilDereference
      | Some w \<Rightarrow>
          (case updateAllHostMetrics L cfg s hostMetrics metric method (Duration w) of
             Inl p \<Rightarrow> Inl p
           | Inr hostMetrics' \<Rightarrow> metric_loop L cfg s window method metrics hostMetrics'))"

fun method_loop ::
  "Lib \<Rightarrow> Config \<Rightarrow> promClient \<Rightarrow> Window option \<Rightarrow> string list \<Rightarrow> HostMetrics \<Rightarrow> panic + HostMetrics" where
  "method_loop L cfg s window [] hostMetrics = Inr hostMetrics"
| "method_loop L cfg s window (method # methods) hostMetrics =
     (case metric_loop L cfg s window method [prom_cpu_metric, prom_mem_metric] hostMetrics of
        Inl p \<Rightarrow> Inl p
      | Inr hostMetrics' \<Rightarrow> method_loop L cfg s window methods hostMetrics')"

definition FetchAllHostsMetrics ::
  "Lib \<Rightarrow> Config \<Rightarrow> promClient \<Rightarrow> Window option \<Rightarrow> panic + HostMetrics \<times> go_error option" where
  "FetchAllHostsMetrics L cfg s window =
     (case method_loop L cfg s window [prom_avg_method, prom_std_method] Map.empty of
        Inl p \<Rightarrow> Inl p
      | Inr hostMetrics \<Rightarrow> Inr (hostMetrics, None))"

section \<open>What the specification speaks of\<close>

subsection \<open>Raw result objects\<close>

text \<open>
  A raw result object has a \<^verbatim>\<open>metric\<close> sub-object with an \<^verbatim>\<open>instance\<close> field naming the
  host, and a value array with the stringified number at index 1. \<open>is_value_array\<close>
  accepts an array of two elements or more whose second element is a string;
  \<open>instance_name\<close> reads the host of a \<^verbatim>\<open>metric\<close> sub-object; \<open>entry_instance\<close> reads
  the host of an entry. In a \<open>raw_result_object\<close> the keys are distinct (it is a Go map),
  the host is there, and every key but \<^verbatim>\<open>metric\<close> holds a value array.
\<close>

fun is_value_array :: "json \<Rightarrow> bool" where
  "is_value_array (JArray (t # JString s # rest)) = True"
| "is_value_array v = False"

fun instance_name :: "json \<Rightarrow> string option" where
  "instance_name (JObject m) =
     (case map_of m ''instance'' of Some (JString h) \<Rightarrow> Some h | _ \<Rightarrow> None)"
| "instance_name v = None"

definition entry_instance :: "jobject \<Rightarrow> string option" where
  "entry_instance e = (case map_of e ''metric'' of Some mv \<Rightarrow> instance_name mv | None \<Rightarrow> None)"

definition raw_result_object :: "jobject \<Rightarrow> bool" where
  "raw_result_object e =
     (distinct (map fst e) \<and> entry_instance e \<noteq> None \<and>
      list_all (\<lambda>kv. fst kv = ''metric'' \<or> is_value_array (snd kv)) e)"

subsection \<open>The four combinations, one after the other\<close>

text \<open>
  The pairs of method and metric in the order of the two nested loops, and the updates
  for a list of such pairs run in sequence, a panic ending the run.
\<close>

definition combinations :: "(string \<times> string) list" where
  "combinations =
     [(prom_avg_method, prom_cpu_metric), (prom_avg_method, prom_mem_metric),
      (prom_std_method, prom_cpu_metric), (prom_std_method, prom_mem_metric)]"

fun update_seq ::
  "Lib \<Rightarrow> Config \<Rightarrow> promClient \<Rightarrow> string \<Rightarrow> (string \<times> string) list \<Rightarrow> HostMetrics \<Rightarrow> panic + HostMetrics" where
  "update_seq L cfg s rollup [] hostMetrics = Inr hostMetrics"
| "update_seq L cfg s rollup (c # cs) hostMetrics =
     (case updateAllHostMetrics L cfg s hostMetrics (snd c) (fst c) rollup of
        Inl p \<Rightarrow> Inl p
      | Inr hostMetrics' \<Rightarrow> update_seq L cfg s rollup cs hostMetrics')"

subsection \<open>The URL with its query expression URL-encoded\<close>

text \<open>
  The specification's wording of the query URL: the query expression
  \<^verbatim>\<open><method>(<metric>[<rollup>])\<close> URL-encoded behind \<^verbatim>\<open>query=\<close>. \<open>QueryEscape\<close> is the
  encoding of Go's \<^verbatim>\<open>url.QueryEscape\<close>: letters, digits and \<^verbatim>\<open>-_.~\<close> stay, a space becomes
  \<^verbatim>\<open>+\<close>, every other byte becomes \<^verbatim>\<open>%\<close> and its two upper-case hexadecimal digits.
\<close>

definition unreserved :: "char \<Rightarrow> bool" where
  "unreserved c \<longleftrightarrow>
     c \<in> set ''ABCDEFGHIJKLMNOPQRSTUVWXYZabcdefghijklmnopqrstuvwxyz0123456789-_.~''"

definition upperhex :: "nat \<Rightarrow> char" where
  "upperhex n = ''0123456789ABCDEF'' ! (n mod 16)"

fun QueryEscape :: "string \<Rightarrow> string" where
  "QueryEscape [] = []"
| "QueryEscape (c # cs) =
     (if unreserved c then [c]
      else if c = CHR '' '' then ''+''
      else [CHR ''%'', upperhex (of_char c div 16), upperhex (of_char c)]) @ QueryEscape cs"

definition url_encoded_query :: "string \<Rightarrow> string \<Rightarrow> string \<Rightarrow> string \<Rightarrow> string" where
  "url_encoded_query host method metric rollup =
     ''http://'' @ host @ ''/api/v1/query?query='' @
       QueryEscape (method @ ''('' @ metric @ ''['' @ rollup @ ''])'')"

section \<open>A backend to run the provider on\<close>

text \<open>
  The values of \<^verbatim>\<open>strconv.ParseFloat(s, 64)\<close> at the literals the examples use, as Go's
  documentation gives them: \<^verbatim>\<open>42.5\<close> and \<^verbatim>\<open>0.5\<close> are binary fractions and parse to
  themselves; \<^verbatim>\<open>1e999\<close> is well-formed but beyond the largest \<^verbatim>\<open>float64\<close>, for which
  \<^verbatim>\<open>ParseFloat\<close> returns +Inf with \<^verbatim>\<open>ErrRange\<close>; a string that is not a number (the
  examples use \<^verbatim>\<open>n/a\<close>) gives 0 with \<^verbatim>\<open>ErrSyntax\<close>. The table is used at these literals
  only.
\<close>

definition fixture_ParseFloat :: "string \<Rightarrow> float64 \<times> go_error option" where
  "fixture_ParseFloat s =
     (if s = ''42.5'' then (Finite (85 / 2), None)
      else if s = ''0.5'' then (Finite (1 / 2), None)
      else if s = ''1e999'' then (PosInf, Some ErrRange)
      else (Finite 0, Some ErrSyntax))"

definition fixture_Lib :: Lib where
  "fixture_Lib = \<lparr>ParseFloat = fixture_ParseFloat, url_Parse_ok = (\<lambda>u. True)\<rparr>"

definition fixture_Config :: Config where
  "fixture_Config = \<lparr>promHost = ''prometheus-k8s:9090'', promToken = [], promTokenPresent = False\<rparr>"

definition fixture_entry :: "string \<Rightarrow> string \<Rightarrow> jobject" where
  "fixture_entry host v =
     [(''metric'', JObject [(''instance'', JString host), (''job'', JString ''node-exporter'')]),
      (''value'', JArray [JNumber (Finite 1700000000), JString v])]"

definition fixture_body :: "json \<Rightarrow> json" where
  "fixture_body r =
     JObject [(''status'', JString ''success''),
              (''data'', JObject [(''resultType'', JString ''vector''), (''result'', r)])]"

text \<open>
  A backend that answers the average of the CPU ratio with status 503, the average of the
  memory ratio with a single result object, the deviation of the CPU ratio with an array
  of two result objects, the deviation of the memory ratio with a body that is not JSON
  and, for the window \<^verbatim>\<open>1h\<close>, with an array holding a string; no other request gets
  through.
\<close>

definition fixture_Do :: "Request \<Rightarrow> Response option" where
  "fixture_Do req =
     (if URL req = promURLStr fixture_Config prom_avg_method prom_cpu_metric ''5m''
      then Some \<lparr>StatusCode = 503, Body = None\<rparr>
      else if URL req = promURLStr fixture_Config prom_avg_method prom_mem_metric ''5m''
      then Some \<lparr>StatusCode = 200, Body = Some (fixture_body (JObject (fixture_entry ''node-1'' ''0.5'')))\<rparr>
      else if URL req = promURLStr fixture_Config prom_std_method prom_cpu_metric ''5m''
      then Some \<lparr>StatusCode = 200,
                  Body = Some (fixture_body (JArray [JObject (fixture_entry ''node-1'' ''0.5''),
                                                     JObject (fixture_entry ''node-2'' ''42.5'')]))\<rparr>
      else if URL req = promURLStr fixture_Config prom_std_method prom_mem_metric ''5m''
      then Some \<lparr>StatusCode = 200, Body = None\<rparr>
      else if URL req = promURLStr fixture_Config prom_std_method prom_mem_metric ''1h''
      then Some \<lparr>StatusCode = 200, Body = Some (fixture_body (JArray [JString ''node-1'']))\<rparr>
      else None)"

definition fixture_client :: promClient where
  "fixture_client = \<lparr>client_Do = fixture_Do\<rparr>"

section \<open>Properties of the conversion of one entry\<close>

lemma value_string_Inr_iff:
  "value_string v = Inr s \<longleftrightarrow> (\<exists>xs. v = JArray xs \<and> 2 \<le> length xs \<and> xs ! 1 = JString s)"
  by (auto simp: value_string_def split: json.splits)

lemma value_string_isl_iff:
  "isl (value_string v) \<longleftrightarrow> \<not> (\<exists>xs s. v = JArray xs \<and> 2 \<le> length xs \<and> xs ! 1 = JString s)"
  by (auto simp: value_string_def split: json.splits)

lemma is_value_array_value_string:
  "is_value_array v \<Longrightarrow> \<exists>s. value_string v = Inr s"
  by (induction v rule: is_value_array.induct) (auto simp: value_string_def)

lemma range_loop_append:
  "range_loop L (xs @ ys) st =
     (case range_loop L xs st of Inl p \<Rightarrow> Inl p | Inr st' \<Rightarrow> range_loop L ys st')"
  by (induction xs arbitrary: st) (auto split: sum.splits)

lemma range_loop_panics:
  "(k, v) \<in> set e \<Longrightarrow> k \<noteq> ''metric'' \<Longrightarrow> isl (value_string v) \<Longrightarrow> isl (range_loop L e st)"
proof (induction e arbitrary: st)
  case Nil
  then show ?case by simp
next
  case (Cons kv e)
  show ?case
  proof (cases "range_step L st kv")
    case (Inl p)
    then show ?thesis by simp
  next
    case (Inr st')
    have "kv \<noteq> (k, v)"
    proof
      assume "kv = (k, v)"
      with Cons.prems Inr show False
        by (auto simp: range_step_def split: sum.splits)
    qed
    with Cons.prems have "(k, v) \<in> set e" by auto
    with Cons.IH Cons.prems Inr show ?thesis by simp
  qed
qed

lemma range_loop_metric_panics:
  "(''metric'', JObject m) \<in> set e \<Longrightarrow> isl (instance_string m) \<Longrightarrow> isl (range_loop L e st)"
proof (induction e arbitrary: st)
  case Nil
  then show ?case by simp
next
  case (Cons kv e)
  show ?case
  proof (cases "range_step L st kv")
    case (Inl p)
    then show ?thesis by simp
  next
    case (Inr st')
    have "kv \<noteq> (''metric'', JObject m)"
    proof
      assume "kv = (''metric'', JObject m)"
      with Cons.prems Inr show False
        by (auto simp: range_step_def split: sum.splits)
    qed
    with Cons.prems have "(''metric'', JObject m) \<in> set e" by auto
    with Cons.IH Cons.prems Inr show ?thesis by simp
  qed
qed

lemma range_step_error_dropped:
  "range_step (L\<lparr>ParseFloat := \<lambda>s. (fst (ParseFloat L s), None)\<rparr>) st kv = range_step L st kv"
  by (simp add: range_step_def split: sum.splits)

lemma range_loop_error_dropped:
  "range_loop (L\<lparr>ParseFloat := \<lambda>s. (fst (ParseFloat L s), None)\<rparr>) e st = range_loop L e st"
  by (induction e arbitrary: st) (simp_all add: range_step_error_dropped split: sum.splits)

lemma instance_name_Some:
  "instance_name v = Some h \<Longrightarrow> \<exists>m. v = JObject m \<and> instance_string m = Inr h"
  by (cases v) (auto simp: instance_string_def split: option.splits json.splits)

lemma range_step_ok:
  assumes "fst kv = ''metric'' \<longrightarrow> instance_name (snd kv) = Some h"
    and "fst kv \<noteq> ''metric'' \<longrightarrow> is_value_array (snd kv)"
  shows "\<exists>cm'. range_step L (cm, ch) kv = Inr (cm', if fst kv = ''metric'' then h else ch) \<and>
           Name cm' = Name cm \<and> Type cm' = Type cm \<and> Rollup cm' = Rollup cm"
proof (cases "fst kv = ''metric''")
  case True
  with assms obtain m where "snd kv = JObject m" "instance_string m = Inr h"
    using instance_name_Some by blast
  with True show ?thesis by (simp add: range_step_def)
next
  case False
  with assms obtain s where "value_string (snd kv) = Inr s"
    using is_value_array_value_string by blast
  with False show ?thesis by (simp add: range_step_def)
qed

lemma range_loop_ok:
  assumes "\<forall>kv\<in>set e. (fst kv = ''metric'' \<longrightarrow> instance_name (snd kv) = Some h) \<and>
                      (fst kv \<noteq> ''metric'' \<longrightarrow> is_value_array (snd kv))"
  shows "\<exists>cm'. range_loop L e (cm, ch) = Inr (cm', if ''metric'' \<in> fst ` set e then h else ch) \<and>
           Name cm' = Name cm \<and> Type cm' = Type cm \<and> Rollup cm' = Rollup cm"
  using assms
proof (induction e arbitrary: cm ch)
  case Nil
  then show ?case by simp
next
  case (Cons kv e)
  from Cons.prems obtain cm1 where
    step: "range_step L (cm, ch) kv = Inr (cm1, if fst kv = ''metric'' then h else ch)"
    and keep1: "Name cm1 = Name cm" "Type cm1 = Type cm" "Rollup cm1 = Rollup cm"
    using range_step_ok [of kv h L cm ch] by auto
  from Cons.prems have rest: "\<forall>kv\<in>set e. (fst kv = ''metric'' \<longrightarrow> instance_name (snd kv) = Some h) \<and>
                      (fst kv \<noteq> ''metric'' \<longrightarrow> is_value_array (snd kv))"
    by simp
  from Cons.IH [OF rest, of cm1 "if fst kv = ''metric'' then h else ch"] obtain cm2 where
    loop: "range_loop L e (cm1, if fst kv = ''metric'' then h else ch) =
             Inr (cm2, if ''metric'' \<in> fst ` set e then h
                       else (if fst kv = ''metric'' then h else ch))"
    and keep2: "Name cm2 = Name cm1" "Type cm2 = Type cm1" "Rollup cm2 = Rollup cm1"
    by blast
  from step loop keep1 keep2 show ?case by auto
qed

lemma promdata2metric_raw_result_object:
  assumes "raw_result_object e" and "entry_instance e = Some h"
  shows "\<exists>m. promdata2metric L e metric method rollup = Inr (m, h) \<and> Name m = method \<and>
           Type m = (if metric = prom_cpu_metric then CPU else Memory) \<and> Rollup m = rollup"
proof -
  from assms(2) obtain mv where mv: "map_of e ''metric'' = Some mv" "instance_name mv = Some h"
    by (auto simp: entry_instance_def split: option.splits)
  from assms(1) have d: "distinct (map fst e)"
    and va: "\<forall>kv\<in>set e. fst kv = ''metric'' \<or> is_value_array (snd kv)"
    by (simp_all add: raw_result_object_def list_all_iff)
  have "\<forall>kv\<in>set e. (fst kv = ''metric'' \<longrightarrow> instance_name (snd kv) = Some h) \<and>
                      (fst kv \<noteq> ''metric'' \<longrightarrow> is_value_array (snd kv))"
  proof
    fix kv assume kv: "kv \<in> set e"
    have "fst kv = ''metric'' \<Longrightarrow> snd kv = mv"
    proof -
      assume "fst kv = ''metric''"
      with kv have "(''metric'', snd kv) \<in> set e" by (metis prod.collapse)
      with d have "map_of e ''metric'' = Some (snd kv)" by simp
      with mv show ?thesis by simp
    qed
    with kv va mv show "(fst kv = ''metric'' \<longrightarrow> instance_name (snd kv) = Some h) \<and>
                      (fst kv \<noteq> ''metric'' \<longrightarrow> is_value_array (snd kv))"
      by auto
  qed
  from range_loop_ok [OF this] obtain cm' where
    "range_loop L e (\<lparr>Name = method, Type = (if metric = prom_cpu_metric then CPU else Memory),
         Rollup = rollup, Value = Finite 0\<rparr>, []) =
       Inr (cm', if ''metric'' \<in> fst ` set e then h else [])"
    "Name cm' = method" "Type cm' = (if metric = prom_cpu_metric then CPU else Memory)"
    "Rollup cm' = rollup"
    by fastforce
  moreover from mv have "''metric'' \<in> fst ` set e"
    by (metis map_of_eq_None_iff option.distinct(1))
  ultimately show ?thesis by (auto simp: promdata2metric_def)
qed

lemma promdata2metric_metric_value:
  assumes "e = [(''metric'', mv), (''value'', JArray [t, JString s])] \<or>
           e = [(''value'', JArray [t, JString s]), (''metric'', mv)]"
    and "instance_name mv = Some h"
  shows "promdata2metric L e metric method rollup =
           Inr (\<lparr>Name = method, Type = (if metric = prom_cpu_metric then CPU else Memory),
                 Rollup = rollup, Value = fst (ParseFloat L s)\<rparr>, h)"
proof -
  from assms(2) obtain m where "mv = JObject m" "instance_string m = Inr h"
    using instance_name_Some by blast
  with assms(1) show ?thesis
    by (auto simp: promdata2metric_def range_step_def value_string_def)
qed

lemma raw_result_object_converts:
  assumes "raw_result_object e"
  shows "\<exists>m h. entry_instance e = Some h \<and> promdata2metric L e metric method rollup = Inr (m, h)"
proof -
  from assms obtain h where "entry_instance e = Some h"
    by (auto simp: raw_result_object_def)
  with assms promdata2metric_raw_result_object [of e h L metric "method" rollup] show ?thesis
    by blast
qed

section \<open>Properties of the update for one combination\<close>

lemma metrics_of_append_metric:
  "metrics_of (append_metric hm h' m) h = metrics_of hm h @ (if h = h' then [m] else [])"
  by (simp add: metrics_of_def append_metric_def)

lemma metrics_of_foldl:
  "metrics_of (foldl (\<lambda>hm cur. append_metric hm (snd cur) (fst cur)) hm ps) h =
     metrics_of hm h @ map fst (filter (\<lambda>p. snd p = h) ps)"
  by (induction ps arbitrary: hm) (auto simp: metrics_of_append_metric)

lemma result_loop_ok:
  assumes "\<forall>e\<in>set es. \<exists>cur. promdata2metric L e metric method rollup = Inr cur"
  shows "result_loop L (map JObject es) metric method rollup hm =
           Inr (foldl (\<lambda>hm cur. append_metric hm (snd cur) (fst cur)) hm
                  (map (\<lambda>e. projr (promdata2metric L e metric method rollup)) es))"
  using assms by (induction es arbitrary: hm) auto

lemma result_loop_panics:
  "x \<in> set xs \<Longrightarrow> (\<forall>e. x \<noteq> JObject e) \<Longrightarrow> isl (result_loop L xs metric method rollup hm)"
proof (induction xs arbitrary: hm)
  case Nil
  then show ?case by simp
next
  case (Cons y ys)
  then show ?case by (cases y) (auto split: sum.splits)
qed

lemma map_of_inner_map:
  "map_of (map (\<lambda>kv. (fst kv, inner_map (snd kv))) kvs) k = map_option inner_map (map_of kvs k)"
  by (induction kvs) auto

lemma data_result_inner:
  "map_of obj ''data'' = Some (JObject d) \<Longrightarrow>
     data_result (map (\<lambda>kv. (fst kv, inner_map (snd kv))) obj) = map_of d ''result''"
  by (simp add: data_result_def map_of_inner_map)

lemma fold_body_result:
  assumes "body = Some (JObject obj)" and "map_of obj ''data'' = Some (JObject d)"
    and "map_of d ''result'' = Some promdata"
  shows "fold_body L body metric method rollup hm =
           (case promdata of
              JArray xs \<Rightarrow> result_loop L xs metric method rollup hm
            | JObject e \<Rightarrow>
                (case promdata2metric L e metric method rollup of
                   Inl p \<Rightarrow> Inl p
                 | Inr cur \<Rightarrow> Inr (append_metric hm (snd cur) (fst cur)))
            | _ \<Rightarrow> Inr hm)"
  using assms by (simp add: fold_body_def data_result_inner)

lemma sum_filter_hosts:
  assumes "finite A" and "snd ` set ps \<subseteq> A"
  shows "(\<Sum>h\<in>A. length (filter (\<lambda>p. snd p = h) ps)) = length ps"
  using assms(2)
proof (induction ps)
  case Nil
  then show ?case by simp
next
  case (Cons p ps)
  have "(\<Sum>h\<in>A. length (filter (\<lambda>q. snd q = h) (p # ps))) =
          (\<Sum>h\<in>A. (if snd p = h then 1 else 0) + length (filter (\<lambda>q. snd q = h) ps))"
    by (rule sum.cong) auto
  also have "\<dots> = (\<Sum>h\<in>A. if snd p = h then 1 else 0) + (\<Sum>h\<in>A. length (filter (\<lambda>q. snd q = h) ps))"
    by (simp add: sum.distrib)
  also have "(\<Sum>h\<in>A. if snd p = h then 1 else 0) = (1::nat)"
    using assms(1) Cons.prems by simp
  finally show ?case using Cons by simp
qed

lemma update_non_OK:
  assumes "NewRequest L ''GET'' (promURLStr cfg method metric rollup) = Some req"
    and "client_Do s (with_headers cfg req) = Some resp"
    and "StatusCode resp \<noteq> StatusOK"
  shows "updateAllHostMetrics L cfg s hm metric method rollup = Inr hm"
  using assms by (simp add: updateAllHostMetrics_def)

lemma update_OK:
  assumes "NewRequest L ''GET'' (promURLStr cfg method metric rollup) = Some req"
    and "client_Do s (with_headers cfg req) = Some resp"
    and "StatusCode resp = StatusOK"
  shows "updateAllHostMetrics L cfg s hm metric method rollup =
           fold_body L (Body resp) metric method rollup hm"
  using assms by (simp add: updateAllHostMetrics_def)

section \<open>Properties of the whole fetch\<close>

lemma Fetch_update_seq:
  "FetchAllHostsMetrics L cfg s (Some w) =
     (case update_seq L cfg s (Duration w) combinations Map.empty of
        Inl p \<Rightarrow> Inl p
      | Inr hm \<Rightarrow> Inr (hm, None))"
  by (simp add: FetchAllHostsMetrics_def combinations_def split: sum.splits)

lemma update_seq_skip:
  assumes "\<And>hm. updateAllHostMetrics L cfg s hm (snd c) (fst c) rollup = Inr hm"
  shows "update_seq L cfg s rollup (pre @ c # post) hm = update_seq L cfg s rollup (pre @ post) hm"
  by (induction pre arbitrary: hm) (simp_all add: assms split: sum.splits)

section \<open>The backend of the examples\<close>

lemmas fixture_defs = fixture_client_def fixture_Do_def fixture_body_def fixture_entry_def
  fixture_Config_def fixture_Lib_def fixture_ParseFloat_def promURLStr_def promQuery_def
  prom_avg_method_def prom_std_method_def prom_cpu_metric_def prom_mem_metric_def

lemmas eval_defs = updateAllHostMetrics_def with_headers_def NewRequest_def Let_def StatusOK_def
  fold_body_def data_result_def promdata2metric_def range_step_def instance_string_def
  value_string_def append_metric_def metrics_of_def

lemma fixture_NewRequest:
  "NewRequest fixture_Lib ''GET'' u = Some \<lparr>Method = ''GET'', URL = u, Header = []\<rparr>"
  by (simp add: NewRequest_def fixture_Lib_def)

lemma fixture_Do_avg_cpu:
  "client_Do fixture_client (with_headers fixture_Config
      \<lparr>Method = ''GET'', URL = promURLStr fixture_Config prom_avg_method prom_cpu_metric ''5m'',
       Header = []\<rparr>) = Some \<lparr>StatusCode = 503, Body = None\<rparr>"
  by (simp add: fixture_defs with_headers_def)

lemma fixture_Do_avg_mem:
  "client_Do fixture_client (with_headers fixture_Config
      \<lparr>Method = ''GET'', URL = promURLStr fixture_Config prom_avg_method prom_mem_metric ''5m'',
       Header = []\<rparr>) =
     Some \<lparr>StatusCode = 200, Body = Some (fixture_body (JObject (fixture_entry ''node-1'' ''0.5'')))\<rparr>"
  by (simp add: fixture_defs with_headers_def)

lemma fixture_Do_std_cpu:
  "client_Do fixture_client (with_headers fixture_Config
      \<lparr>Method = ''GET'', URL = promURLStr fixture_Config prom_std_method prom_cpu_metric ''5m'',
       Header = []\<rparr>) =
     Some \<lparr>StatusCode = 200,
           Body = Some (fixture_body (JArray [JObject (fixture_entry ''node-1'' ''0.5''),
                                              JObject (fixture_entry ''node-2'' ''42.5'')]))\<rparr>"
  by (simp add: fixture_defs with_headers_def)

lemma fixture_Do_std_mem_1h:
  "client_Do fixture_client (with_headers fixture_Config
      \<lparr>Method = ''GET'', URL = promURLStr fixture_Config prom_std_method prom_mem_metric ''1h'',
       Header = []\<rparr>) =
     Some \<lparr>StatusCode = 200, Body = Some (fixture_body (JArray [JString ''node-1'']))\<rparr>"
  by (simp add: fixture_defs with_headers_def)

lemma fixture_entry_raw: "raw_result_object (fixture_entry h v)"
  by (simp add: raw_result_object_def fixture_entry_def entry_instance_def)

lemma fixture_entry_instance: "entry_instance (fixture_entry h v) = Some h"
  by (simp add: fixture_entry_def entry_instance_def)

section \<open>The claims\<close>

subsection \<open>Conversion of one entry\<close>

text \<open>
  Claim C1 says that an entry whose \<^verbatim>\<open>metric\<close> sub-object lacks an \<^verbatim>\<open>instance\<close> field, or
  holds one that is not a string, converts to the empty host without a crash. The code
  guards the assertion of \<^verbatim>\<open>metric\<close> to a map with the comma-ok form, but asserts
  \<^verbatim>\<open>["instance"].(string)\<close> without it: on the entries below, in either order of the two
  keys, the conversion panics. The first two have no \<^verbatim>\<open>instance\<close>, the last two have a
  number there.
\<close>

theorem missing_instance_panics:
  "promdata2metric L [(''metric'', JObject [(''job'', JString ''node'')]),
       (''value'', JArray [JNumber (Finite 0), JString ''0.5''])] metric method rollup
     = Inl TypeAssertionFailed \<and>
   promdata2metric L [(''value'', JArray [JNumber (Finite 0), JString ''0.5'']),
       (''metric'', JObject [(''job'', JString ''node'')])] metric method rollup
     = Inl TypeAssertionFailed \<and>
   promdata2metric L [(''metric'', JObject [(''instance'', JNumber (Finite 1))]),
       (''value'', JArray [JNumber (Finite 0), JString ''0.5''])] metric method rollup
     = Inl TypeAssertionFailed \<and>
   promdata2metric L [(''value'', JArray [JNumber (Finite 0), JString ''0.5'']),
       (''metric'', JObject [(''instance'', JNumber (Finite 1))])] metric method rollup
     = Inl TypeAssertionFailed"
  by (simp add: promdata2metric_def range_step_def instance_string_def value_string_def)

text \<open>
  Claim C5: for an entry made of a \<^verbatim>\<open>metric\<close> sub-object naming its host and the value
  array \<^verbatim>\<open>[t, "42.5"]\<close>, with \<open>t\<close> anything and the two keys visited in either order, the
  conversion returns the metric whose value is what \<^verbatim>\<open>ParseFloat\<close> gives for \<^verbatim>\<open>42.5\<close>, the
  string at index 1. 42.5 is the \<^verbatim>\<open>float64\<close> 85/2, which a correctly rounding parser
  returns.
\<close>

theorem value_42_5_exact:
  assumes "e = [(''metric'', mv), (''value'', JArray [t, JString ''42.5''])] \<or>
           e = [(''value'', JArray [t, JString ''42.5'']), (''metric'', mv)]"
    and "instance_name mv = Some h"
    and "fst (ParseFloat L ''42.5'') = Finite (85 / 2)"
  shows "promdata2metric L e metric method rollup =
           Inr (\<lparr>Name = method, Type = (if metric = prom_cpu_metric then CPU else Memory),
                 Rollup = rollup, Value = Finite (85 / 2)\<rparr>, h)"
  using promdata2metric_metric_value [OF assms(1,2)] assms(3) by simp

text \<open>
  The conversion at two entries, one for each order of the keys.
\<close>

theorem value_42_5_exact_witness:
  "promdata2metric fixture_Lib
      [(''metric'', JObject [(''instance'', JString ''node-1'')]),
       (''value'', JArray [JNumber (Finite 1700000000), JString ''42.5''])]
      prom_cpu_metric prom_avg_method ''5m'' =
     Inr (\<lparr>Name = prom_avg_method, Type = CPU, Rollup = ''5m'', Value = Finite (85 / 2)\<rparr>, ''node-1'') \<and>
   promdata2metric fixture_Lib
      [(''value'', JArray [JNull, JString ''42.5'']),
       (''metric'', JObject [(''instance'', JString ''node-2'')])]
      prom_mem_metric prom_std_method ''5m'' =
     Inr (\<lparr>Name = prom_std_method, Type = Memory, Rollup = ''5m'', Value = Finite (85 / 2)\<rparr>, ''node-2'')"
proof -
  have p: "fst (ParseFloat fixture_Lib ''42.5'') = Finite (85 / 2)"
    by (simp add: fixture_Lib_def fixture_ParseFloat_def)
  have i1: "instance_name (JObject [(''instance'', JString ''node-1'')]) = Some ''node-1''"
    and i2: "instance_name (JObject [(''instance'', JString ''node-2'')]) = Some ''node-2''"
    by simp_all
  have c: "prom_mem_metric \<noteq> prom_cpu_metric"
    by (simp add: prom_mem_metric_def prom_cpu_metric_def)
  from value_42_5_exact [OF disjI1 [OF refl] i1 p, of "JNumber (Finite 1700000000)" prom_cpu_metric prom_avg_method "''5m''"]
    value_42_5_exact [OF disjI2 [OF refl] i2 p, of JNull prom_mem_metric prom_std_method "''5m''"] c
  show ?thesis by simp
qed

text \<open>
  Claim C8, as the code has it: the error of \<^verbatim>\<open>ParseFloat\<close> is dropped, so the conversion
  of any entry is the same as with a parser that returns the same values and no error,
  and a failed parse never ends it; the value of the metric is the value \<^verbatim>\<open>ParseFloat\<close>
  returned beside its error. That value is what the library chose, the code puts no zero
  in its place.
\<close>

theorem parse_failure_value_passed_through:
  "promdata2metric (L\<lparr>ParseFloat := \<lambda>s. (fst (ParseFloat L s), None)\<rparr>) e' metric method rollup =
     promdata2metric L e' metric method rollup \<and>
   ((e = [(''metric'', mv), (''value'', JArray [t, JString s])] \<or>
     e = [(''value'', JArray [t, JString s]), (''metric'', mv)]) \<and>
    instance_name mv = Some h \<and> ParseFloat L s = (x, Some err) \<longrightarrow>
      promdata2metric L e metric method rollup =
        Inr (\<lparr>Name = method, Type = (if metric = prom_cpu_metric then CPU else Memory),
              Rollup = rollup, Value = x\<rparr>, h))"
proof (intro conjI impI)
  show "promdata2metric (L\<lparr>ParseFloat := \<lambda>s. (fst (ParseFloat L s), None)\<rparr>) e' metric method rollup =
     promdata2metric L e' metric method rollup"
    by (simp add: promdata2metric_def range_loop_error_dropped)
next
  assume a: "(e = [(''metric'', mv), (''value'', JArray [t, JString s])] \<or>
     e = [(''value'', JArray [t, JString s]), (''metric'', mv)]) \<and>
    instance_name mv = Some h \<and> ParseFloat L s = (x, Some err)"
  then have "promdata2metric L e metric method rollup =
           Inr (\<lparr>Name = method, Type = (if metric = prom_cpu_metric then CPU else Memory),
                 Rollup = rollup, Value = fst (ParseFloat L s)\<rparr>, h)"
    using promdata2metric_metric_value by blast
  with a show "promdata2metric L e metric method rollup =
        Inr (\<lparr>Name = method, Type = (if metric = prom_cpu_metric then CPU else Memory),
              Rollup = rollup, Value = x\<rparr>, h)"
    by simp
qed

text \<open>
  A string that is not a number: \<^verbatim>\<open>ParseFloat\<close> returns 0 with \<^verbatim>\<open>ErrSyntax\<close>, and the
  metric has the value 0.
\<close>

theorem parse_failure_value_passed_through_witness:
  "promdata2metric fixture_Lib
      [(''value'', JArray [JNumber (Finite 1700000000), JString ''n/a'']),
       (''metric'', JObject [(''instance'', JString ''node-1'')])]
      prom_mem_metric prom_avg_method ''5m'' =
     Inr (\<lparr>Name = prom_avg_method, Type = Memory, Rollup = ''5m'', Value = Finite 0\<rparr>, ''node-1'')"
proof -
  have p: "ParseFloat fixture_Lib ''n/a'' = (Finite 0, Some ErrSyntax)"
    by (simp add: fixture_Lib_def fixture_ParseFloat_def)
  have i: "instance_name (JObject [(''instance'', JString ''node-1'')]) = Some ''node-1''"
    by simp
  have c: "prom_mem_metric \<noteq> prom_cpu_metric"
    by (simp add: prom_mem_metric_def prom_cpu_metric_def)
  from parse_failure_value_passed_through [of fixture_Lib "[]" prom_mem_metric prom_avg_method "''5m''"
      "[(''value'', JArray [JNumber (Finite 1700000000), JString ''n/a'']),
        (''metric'', JObject [(''instance'', JString ''node-1'')])]"
      "JObject [(''instance'', JString ''node-1'')]" "JNumber (Finite 1700000000)" "''n/a''"
      "''node-1''" "Finite 0" ErrSyntax] p i c
  show ?thesis by simp
qed

text \<open>
  Claim C8 as it is written promises the value 0 after every parse failure. For the
  well-formed but too large \<^verbatim>\<open>1e999\<close>, \<^verbatim>\<open>ParseFloat\<close> fails with \<^verbatim>\<open>ErrRange\<close> and returns
  +Inf, which the conversion stores.
\<close>

theorem range_failure_value_not_zero:
  "ParseFloat fixture_Lib ''1e999'' = (PosInf, Some ErrRange) \<and>
   promdata2metric fixture_Lib
      [(''metric'', JObject [(''instance'', JString ''node-1'')]),
       (''value'', JArray [JNumber (Finite 1700000000), JString ''1e999''])]
      prom_cpu_metric prom_avg_method ''5m'' =
     Inr (\<lparr>Name = prom_avg_method, Type = CPU, Rollup = ''5m'', Value = PosInf\<rparr>, ''node-1'') \<and>
   PosInf \<noteq> Finite 0"
  by (simp add: promdata2metric_def range_step_def instance_string_def value_string_def
      fixture_Lib_def fixture_ParseFloat_def)

text \<open>
  Claim C9: the loop treats every key other than \<^verbatim>\<open>metric\<close> as the value array. If some
  such key holds anything but an array of two elements or more with a string at index 1,
  the conversion panics, wherever the key stands in the order of the loop. And a key of
  any name visited last, holding such an array, decides the value of the metric.
\<close>

theorem value_from_every_other_key:
  "((k, v) \<in> set e \<and> k \<noteq> ''metric'' \<and>
      \<not> (\<exists>xs s. v = JArray xs \<and> 2 \<le> length xs \<and> xs ! 1 = JString s) \<longrightarrow>
      (\<exists>p. promdata2metric L e metric method rollup = Inl p)) \<and>
   (k \<noteq> ''metric'' \<and> 2 \<le> length xs \<and> xs ! 1 = JString s \<longrightarrow>
      promdata2metric L (e @ [(k, JArray xs)]) metric method rollup =
        (case promdata2metric L e metric method rollup of
           Inl p \<Rightarrow> Inl p
         | Inr cur \<Rightarrow> Inr ((fst cur)\<lparr>Value := fst (ParseFloat L s)\<rparr>, snd cur)))"
proof (intro conjI impI)
  assume "(k, v) \<in> set e \<and> k \<noteq> ''metric'' \<and>
      \<not> (\<exists>xs s. v = JArray xs \<and> 2 \<le> length xs \<and> xs ! 1 = JString s)"
  then have "isl (range_loop L e (\<lparr>Name = method,
         Type = (if metric = prom_cpu_metric then CPU else Memory),
         Rollup = rollup, Value = Finite 0\<rparr>, []))"
    using range_loop_panics value_string_isl_iff by blast
  then show "\<exists>p. promdata2metric L e metric method rollup = Inl p"
    by (auto simp: promdata2metric_def isl_def)
next
  assume "k \<noteq> ''metric'' \<and> 2 \<le> length xs \<and> xs ! 1 = JString s"
  then have "k \<noteq> ''metric''" and "value_string (JArray xs) = Inr s"
    by (auto simp: value_string_Inr_iff)
  then show "promdata2metric L (e @ [(k, JArray xs)]) metric method rollup =
        (case promdata2metric L e metric method rollup of
           Inl p \<Rightarrow> Inl p
         | Inr cur \<Rightarrow> Inr ((fst cur)\<lparr>Value := fst (ParseFloat L s)\<rparr>, snd cur))"
    by (simp add: promdata2metric_def range_loop_append range_step_def split: sum.splits)
qed

text \<open>
  An entry whose key \<^verbatim>\<open>values\<close> holds an array of one element, and an entry with a third
  key \<^verbatim>\<open>histogram\<close> visited last.
\<close>

theorem value_from_every_other_key_witness:
  "(\<exists>p. promdata2metric fixture_Lib
      [(''metric'', JObject [(''instance'', JString ''node-1'')]),
       (''values'', JArray [JArray [JNumber (Finite 1700000000), JString ''0.5'']])]
      prom_cpu_metric prom_avg_method ''5m'' = Inl p) \<and>
   promdata2metric fixture_Lib
      (fixture_entry ''node-1'' ''0.5'' @ [(''histogram'', JArray [JNull, JString ''42.5'', JNull])])
      prom_cpu_metric prom_avg_method ''5m'' =
     Inr (\<lparr>Name = prom_avg_method, Type = CPU, Rollup = ''5m'', Value = Finite (85 / 2)\<rparr>, ''node-1'')"
proof -
  have a: "\<not> (\<exists>xs s. JArray [JArray [JNumber (Finite 1700000000), JString ''0.5'']] = JArray xs \<and>
              2 \<le> length xs \<and> xs ! 1 = JString s)"
    by simp
  have b: "promdata2metric fixture_Lib (fixture_entry ''node-1'' ''0.5'')
             prom_cpu_metric prom_avg_method ''5m'' =
           Inr (\<lparr>Name = prom_avg_method, Type = CPU, Rollup = ''5m'', Value = Finite (1 / 2)\<rparr>, ''node-1'')"
    by (simp add: promdata2metric_def range_step_def instance_string_def value_string_def
        fixture_entry_def fixture_Lib_def fixture_ParseFloat_def)
  have p: "fst (ParseFloat fixture_Lib ''42.5'') = Finite (85 / 2)"
    by (simp add: fixture_Lib_def fixture_ParseFloat_def)
  from value_from_every_other_key [of "''values''" "JArray [JArray [JNumber (Finite 1700000000), JString ''0.5'']]"
      "[(''metric'', JObject [(''instance'', JString ''node-1'')]),
        (''values'', JArray [JArray [JNumber (Finite 1700000000), JString ''0.5'']])]"
      fixture_Lib prom_cpu_metric prom_avg_method "''5m''"] a
  have first: "\<exists>p. promdata2metric fixture_Lib
      [(''metric'', JObject [(''instance'', JString ''node-1'')]),
       (''values'', JArray [JArray [JNumber (Finite 1700000000), JString ''0.5'']])]
      prom_cpu_metric prom_avg_method ''5m'' = Inl p"
    by simp
  from value_from_every_other_key [of "''histogram''" JNull "fixture_entry ''node-1'' ''0.5''" fixture_Lib prom_cpu_metric
      prom_avg_method "''5m''" "[JNull, JString ''42.5'', JNull]" "''42.5''"] b p
  have "promdata2metric fixture_Lib
      (fixture_entry ''node-1'' ''0.5'' @ [(''histogram'', JArray [JNull, JString ''42.5'', JNull])])
      prom_cpu_metric prom_avg_method ''5m'' =
     Inr (\<lparr>Name = prom_avg_method, Type = CPU, Rollup = ''5m'', Value = Finite (85 / 2)\<rparr>, ''node-1'')"
    by simp
  with first show ?thesis by simp
qed

subsection \<open>The update for one combination\<close>

text \<open>
  Claim C7, as the code has it: the query URL is \<^verbatim>\<open>http://\<close>, the backend host,
  \<^verbatim>\<open>/api/v1/query?query=\<close> and the query expression \<^verbatim>\<open><method>(<metric>[<rollup>])\<close>, the
  four strings copied as they are. It is a total function of them.
\<close>

theorem query_url_verbatim: "promURLStr cfg method metric rollup =
    ''http://'' @ promHost cfg @ ''/api/v1/query?query='' @ method @ ''('' @ metric @ ''['' @ rollup @ '']'' @ '')''"
  by (simp add: promURLStr_def promQuery_def)

text \<open>
  Claim C7 as it is written has the query expression URL-encoded. For the default host
  and the average of the CPU ratio over \<^verbatim>\<open>5m\<close>, the code's URL keeps the parentheses, the
  colons and the brackets, which the encoding replaces.
\<close>

theorem query_url_not_encoded:
  "promURLStr fixture_Config prom_avg_method prom_cpu_metric ''5m'' =
     ''http://prometheus-k8s:9090/api/v1/query?query=avg_over_time(instance:node_cpu:ratio[5m])'' \<and>
   url_encoded_query ''prometheus-k8s:9090'' prom_avg_method prom_cpu_metric ''5m'' =
     ''http://prometheus-k8s:9090/api/v1/query?query=avg_over_time%28instance%3Anode_cpu%3Aratio%5B5m%5D%29'' \<and>
   promURLStr fixture_Config prom_avg_method prom_cpu_metric ''5m'' \<noteq>
     url_encoded_query (promHost fixture_Config) prom_avg_method prom_cpu_metric ''5m''"
  by (simp add: promURLStr_def promQuery_def fixture_Config_def prom_avg_method_def
      prom_cpu_metric_def url_encoded_query_def unreserved_def upperhex_def)

text \<open>
  Claim C4: take a response with status OK whose body is an object with the object
  \<^verbatim>\<open>data\<close>. If \<^verbatim>\<open>data.result\<close> is an array of N raw result objects, the update converts
  each of them to a metric and a host, the host being the \<^verbatim>\<open>instance\<close> of that very entry,
  and returns the mapping in which every host's list is its old list followed by the
  metrics of the entries naming that host, in the order of the array: N new metrics in
  all. If \<^verbatim>\<open>data.result\<close> is one raw result object, the mapping returned has one metric
  more, at the end of the list of the host the object names.
\<close>

theorem result_entries_appended_per_host:
  assumes "NewRequest L ''GET'' (promURLStr cfg method metric rollup) = Some req"
    and "client_Do s (with_headers cfg req) = Some resp"
    and "StatusCode resp = StatusOK"
    and "Body resp = Some (JObject obj)"
    and "map_of obj ''data'' = Some (JObject d)"
  shows "(map_of d ''result'' = Some (JArray (map JObject es)) \<and> list_all raw_result_object es \<longrightarrow>
          (\<exists>pairs hm'. length pairs = length es \<and>
             (\<forall>i<length es. promdata2metric L (es ! i) metric method rollup = Inr (pairs ! i) \<and>
                             entry_instance (es ! i) = Some (snd (pairs ! i))) \<and>
             updateAllHostMetrics L cfg s hostMetrics metric method rollup = Inr hm' \<and>
             (\<forall>h. metrics_of hm' h =
                    metrics_of hostMetrics h @ map fst (filter (\<lambda>p. snd p = h) pairs)) \<and>
             (\<Sum>h\<in>snd ` set pairs. length (metrics_of hm' h) - length (metrics_of hostMetrics h)) =
               length es)) \<and>
         (map_of d ''result'' = Some (JObject e) \<and> raw_result_object e \<longrightarrow>
          (\<exists>m h hm'. entry_instance e = Some h \<and>
             promdata2metric L e metric method rollup = Inr (m, h) \<and>
             updateAllHostMetrics L cfg s hostMetrics metric method rollup = Inr hm' \<and>
             (\<forall>h'. metrics_of hm' h' = metrics_of hostMetrics h' @ (if h' = h then [m] else []))))"
proof (intro conjI impI)
  assume a: "map_of d ''result'' = Some (JArray (map JObject es)) \<and> list_all raw_result_object es"
  define conv where "conv = (\<lambda>e. projr (promdata2metric L e metric method rollup))"
  define pairs where "pairs = map conv es"
  define hm' where "hm' = foldl (\<lambda>hm cur. append_metric hm (snd cur) (fst cur)) hostMetrics pairs"
  have each: "promdata2metric L x metric method rollup = Inr (conv x) \<and>
              entry_instance x = Some (snd (conv x))" if "x \<in> set es" for x
  proof -
    from a that have "raw_result_object x" by (simp add: list_all_iff)
    from raw_result_object_converts [OF this, of L metric "method" rollup] show ?thesis
      by (auto simp: conv_def)
  qed
  then have ok: "\<forall>x\<in>set es. \<exists>cur. promdata2metric L x metric method rollup = Inr cur"
    by blast
  have upd: "updateAllHostMetrics L cfg s hostMetrics metric method rollup = Inr hm'"
    using update_OK [OF assms(1-3)] fold_body_result [OF assms(4,5), of "JArray (map JObject es)"]
      a result_loop_ok [OF ok] by (simp add: hm'_def pairs_def conv_def)
  have per_host: "metrics_of hm' h =
      metrics_of hostMetrics h @ map fst (filter (\<lambda>p. snd p = h) pairs)" for h
    by (simp add: hm'_def metrics_of_foldl)
  have "(\<Sum>h\<in>snd ` set pairs. length (metrics_of hm' h) - length (metrics_of hostMetrics h)) =
          (\<Sum>h\<in>snd ` set pairs. length (filter (\<lambda>p. snd p = h) pairs))"
    by (simp add: per_host)
  also have "\<dots> = length pairs"
    by (rule sum_filter_hosts) simp_all
  finally have total: "(\<Sum>h\<in>snd ` set pairs. length (metrics_of hm' h) - length (metrics_of hostMetrics h)) =
      length es"
    by (simp add: pairs_def)
  have idx: "\<forall>i<length es. promdata2metric L (es ! i) metric method rollup = Inr (pairs ! i) \<and>
                             entry_instance (es ! i) = Some (snd (pairs ! i))"
    using each by (simp add: pairs_def)
  have len: "length pairs = length es" by (simp add: pairs_def)
  from len idx upd per_host total
  show "\<exists>pairs hm'. length pairs = length es \<and>
             (\<forall>i<length es. promdata2metric L (es ! i) metric method rollup = Inr (pairs ! i) \<and>
                             entry_instance (es ! i) = Some (snd (pairs ! i))) \<and>
             updateAllHostMetrics L cfg s hostMetrics metric method rollup = Inr hm' \<and>
             (\<forall>h. metrics_of hm' h =
                    metrics_of hostMetrics h @ map fst (filter (\<lambda>p. snd p = h) pairs)) \<and>
             (\<Sum>h\<in>snd ` set pairs. length (metrics_of hm' h) - length (metrics_of hostMetrics h)) =
               length es"
    by blast
next
  assume a: "map_of d ''result'' = Some (JObject e) \<and> raw_result_object e"
  then obtain m h where mh: "entry_instance e = Some h"
    "promdata2metric L e metric method rollup = Inr (m, h)"
    using raw_result_object_converts by blast
  have "updateAllHostMetrics L cfg s hostMetrics metric method rollup =
          Inr (append_metric hostMetrics h m)"
    using update_OK [OF assms(1-3)] fold_body_result [OF assms(4,5), of "JObject e"] a mh
    by simp
  with mh show "\<exists>m h hm'. entry_instance e = Some h \<and>
             promdata2metric L e metric method rollup = Inr (m, h) \<and>
             updateAllHostMetrics L cfg s hostMetrics metric method rollup = Inr hm' \<and>
             (\<forall>h'. metrics_of hm' h' = metrics_of hostMetrics h' @ (if h' = h then [m] else []))"
    using metrics_of_append_metric by blast
qed

text \<open>
  The backend's array of two entries for the deviation of the CPU ratio, and its single
  object for the average of the memory ratio, each folded into the empty mapping.
\<close>

theorem result_entries_appended_per_host_witness:
  "(\<exists>hm'. updateAllHostMetrics fixture_Lib fixture_Config fixture_client Map.empty
        prom_cpu_metric prom_std_method ''5m'' = Inr hm' \<and>
      length (metrics_of hm' ''node-1'') = 1 \<and> length (metrics_of hm' ''node-2'') = 1 \<and>
      length (metrics_of hm' ''node-3'') = 0) \<and>
   (\<exists>hm'. updateAllHostMetrics fixture_Lib fixture_Config fixture_client Map.empty
        prom_mem_metric prom_avg_method ''5m'' = Inr hm' \<and>
      length (metrics_of hm' ''node-1'') = 1 \<and> length (metrics_of hm' ''node-2'') = 0)"
proof -
  let ?es = "[fixture_entry ''node-1'' ''0.5'', fixture_entry ''node-2'' ''42.5'']"
  let ?e = "fixture_entry ''node-1'' ''0.5''"
  have b1: "Body \<lparr>StatusCode = 200, Body = Some (fixture_body (JArray (map JObject ?es)))\<rparr> =
      Some (JObject [(''status'', JString ''success''),
              (''data'', JObject [(''resultType'', JString ''vector''),
                 (''result'', JArray (map JObject ?es))])])"
    by (simp add: fixture_body_def)
  have st: "StatusCode \<lparr>StatusCode = 200, Body = b\<rparr> = StatusOK" for b
    by (simp add: StatusOK_def)
  have d: "map_of [(''status'', JString ''success''), (''data'', JObject dd)] ''data'' = Some (JObject dd)" for dd
    by simp
  have do3: "client_Do fixture_client (with_headers fixture_Config
      \<lparr>Method = ''GET'', URL = promURLStr fixture_Config prom_std_method prom_cpu_metric ''5m'',
       Header = []\<rparr>) =
     Some \<lparr>StatusCode = 200, Body = Some (fixture_body (JArray (map JObject ?es)))\<rparr>"
    using fixture_Do_std_cpu by simp
  have pre1: "map_of [(''resultType'', JString ''vector''), (''result'', JArray (map JObject ?es))]
                ''result'' = Some (JArray (map JObject ?es)) \<and> list_all raw_result_object ?es"
    by (simp add: fixture_entry_raw)
  from result_entries_appended_per_host [OF fixture_NewRequest do3 st b1 d, THEN conjunct1, THEN mp, OF pre1, of Map.empty]
  obtain pairs hm' where len: "length pairs = length ?es"
    and idx: "\<forall>i<length ?es. promdata2metric fixture_Lib (?es ! i) prom_cpu_metric prom_std_method ''5m'' =
                Inr (pairs ! i) \<and> entry_instance (?es ! i) = Some (snd (pairs ! i))"
    and upd: "updateAllHostMetrics fixture_Lib fixture_Config fixture_client Map.empty
        prom_cpu_metric prom_std_method ''5m'' = Inr hm'"
    and per: "\<forall>h. metrics_of hm' h = metrics_of Map.empty h @ map fst (filter (\<lambda>p. snd p = h) pairs)"
    by blast
  from len obtain p q where pq: "pairs = [p, q]"
    by (cases pairs; cases "tl pairs") auto
  have "entry_instance (?es ! 0) = Some (snd (pairs ! 0))"
    using idx [rule_format, of 0] by simp
  moreover have "entry_instance (?es ! 1) = Some (snd (pairs ! 1))"
    using idx [rule_format, of 1] by simp
  ultimately have hosts: "snd p = ''node-1''" "snd q = ''node-2''"
    using pq by (simp_all add: fixture_entry_instance)
  from per pq hosts have "length (metrics_of hm' ''node-1'') = 1 \<and> length (metrics_of hm' ''node-2'') = 1 \<and>
      length (metrics_of hm' ''node-3'') = 0"
    by (simp add: metrics_of_def)
  with upd have first: "\<exists>hm'. updateAllHostMetrics fixture_Lib fixture_Config fixture_client Map.empty
        prom_cpu_metric prom_std_method ''5m'' = Inr hm' \<and>
      length (metrics_of hm' ''node-1'') = 1 \<and> length (metrics_of hm' ''node-2'') = 1 \<and>
      length (metrics_of hm' ''node-3'') = 0"
    by blast
  have b2: "Body \<lparr>StatusCode = 200, Body = Some (fixture_body (JObject ?e))\<rparr> =
      Some (JObject [(''status'', JString ''success''),
              (''data'', JObject [(''resultType'', JString ''vector''), (''result'', JObject ?e)])])"
    by (simp add: fixture_body_def)
  have pre2: "map_of [(''resultType'', JString ''vector''), (''result'', JObject ?e)] ''result'' =
                Some (JObject ?e) \<and> raw_result_object ?e"
    by (simp add: fixture_entry_raw)
  from result_entries_appended_per_host [OF fixture_NewRequest fixture_Do_avg_mem st b2 d, THEN conjunct2, THEN mp, OF pre2, of Map.empty]
  obtain m h hm2 where h: "entry_instance ?e = Some h"
    and upd2: "updateAllHostMetrics fixture_Lib fixture_Config fixture_client Map.empty
        prom_mem_metric prom_avg_method ''5m'' = Inr hm2"
    and per2: "\<forall>h'. metrics_of hm2 h' = metrics_of Map.empty h' @ (if h' = h then [m] else [])"
    by blast
  from h have "h = ''node-1''" by (simp add: fixture_entry_instance)
  with per2 have "length (metrics_of hm2 ''node-1'') = 1 \<and> length (metrics_of hm2 ''node-2'') = 0"
    by (simp add: metrics_of_def)
  with upd2 first show ?thesis by blast
qed

text \<open>
  Claim C10: when \<^verbatim>\<open>data.result\<close> is an array with an element that is not an object, the
  update panics; it does not skip the element.
\<close>

theorem non_object_element_panics:
  assumes "NewRequest L ''GET'' (promURLStr cfg method metric rollup) = Some req"
    and "client_Do s (with_headers cfg req) = Some resp"
    and "StatusCode resp = StatusOK"
    and "Body resp = Some (JObject obj)"
    and "map_of obj ''data'' = Some (JObject d)"
    and "map_of d ''result'' = Some (JArray xs)"
    and "x \<in> set xs" and "\<forall>e. x \<noteq> JObject e"
  shows "\<exists>p. updateAllHostMetrics L cfg s hostMetrics metric method rollup = Inl p"
proof -
  have "updateAllHostMetrics L cfg s hostMetrics metric method rollup =
          result_loop L xs metric method rollup hostMetrics"
    using update_OK [OF assms(1-3)] fold_body_result [OF assms(4-6)] by simp
  moreover have "isl (result_loop L xs metric method rollup hostMetrics)"
    using assms(7,8) by (rule result_loop_panics)
  ultimately show ?thesis by (auto simp: isl_def)
qed

text \<open>
  The backend's answer for the window \<^verbatim>\<open>1h\<close>, an array holding a string.
\<close>

theorem non_object_element_panics_witness:
  "\<exists>p. updateAllHostMetrics fixture_Lib fixture_Config fixture_client Map.empty
      prom_mem_metric prom_std_method ''1h'' = Inl p"
proof -
  have b: "Body \<lparr>StatusCode = 200, Body = Some (fixture_body (JArray [JString ''node-1'']))\<rparr> =
      Some (JObject [(''status'', JString ''success''),
              (''data'', JObject [(''resultType'', JString ''vector''),
                                  (''result'', JArray [JString ''node-1''])])])"
    by (simp add: fixture_body_def)
  have st: "StatusCode \<lparr>StatusCode = 200, Body = Some (fixture_body (JArray [JString ''node-1'']))\<rparr> =
      StatusOK"
    by (simp add: StatusOK_def)
  have d: "map_of [(''status'', JString ''success''),
              (''data'', JObject [(''resultType'', JString ''vector''),
                                  (''result'', JArray [JString ''node-1''])])] ''data'' =
           Some (JObject [(''resultType'', JString ''vector''), (''result'', JArray [JString ''node-1''])])"
    by simp
  have r: "map_of [(''resultType'', JString ''vector''), (''result'', JArray [JString ''node-1''])]
             ''result'' = Some (JArray [JString ''node-1''])"
    by simp
  have x: "JString ''node-1'' \<in> set [JString ''node-1'']" "\<forall>e. JString ''node-1'' \<noteq> JObject e"
    by simp_all
  from non_object_element_panics [OF fixture_NewRequest fixture_Do_std_mem_1h st b d r x]
  show ?thesis .
qed

subsection \<open>The whole fetch\<close>

text \<open>
  Claim C3: an update whose response has a status other than OK returns the mapping it
  was given. And when that happens to one of the four combinations, the fetch returns
  what the three other combinations, run in their order from the empty mapping, produce.
\<close>

theorem non_OK_status_skips_combination:
  "(NewRequest L ''GET'' (promURLStr cfg method metric rollup) = Some req \<and>
    client_Do s (with_headers cfg req) = Some resp \<and> StatusCode resp \<noteq> StatusOK \<longrightarrow>
      updateAllHostMetrics L cfg s hostMetrics metric method rollup = Inr hostMetrics) \<and>
   (combinations = pre @ (method', metric') # post \<and>
    NewRequest L ''GET'' (promURLStr cfg method' metric' (Duration w)) = Some req' \<and>
    client_Do s (with_headers cfg req') = Some resp' \<and> StatusCode resp' \<noteq> StatusOK \<longrightarrow>
      FetchAllHostsMetrics L cfg s (Some w) =
        (case update_seq L cfg s (Duration w) (pre @ post) Map.empty of
           Inl p \<Rightarrow> Inl p
         | Inr hm \<Rightarrow> Inr (hm, None)))"
proof (intro conjI impI)
  assume "NewRequest L ''GET'' (promURLStr cfg method metric rollup) = Some req \<and>
    client_Do s (with_headers cfg req) = Some resp \<and> StatusCode resp \<noteq> StatusOK"
  then show "updateAllHostMetrics L cfg s hostMetrics metric method rollup = Inr hostMetrics"
    using update_non_OK by blast
next
  assume a: "combinations = pre @ (method', metric') # post \<and>
    NewRequest L ''GET'' (promURLStr cfg method' metric' (Duration w)) = Some req' \<and>
    client_Do s (with_headers cfg req') = Some resp' \<and> StatusCode resp' \<noteq> StatusOK"
  then have "\<And>hm. updateAllHostMetrics L cfg s hm (snd (method', metric')) (fst (method', metric')) (Duration w) = Inr hm"
    using update_non_OK by simp
  then have "update_seq L cfg s (Duration w) (pre @ (method', metric') # post) Map.empty =
               update_seq L cfg s (Duration w) (pre @ post) Map.empty"
    by (rule update_seq_skip)
  moreover from a have "combinations = pre @ (method', metric') # post" by simp
  ultimately have "update_seq L cfg s (Duration w) combinations Map.empty =
               update_seq L cfg s (Duration w) (pre @ post) Map.empty"
    by simp
  then show "FetchAllHostsMetrics L cfg s (Some w) =
        (case update_seq L cfg s (Duration w) (pre @ post) Map.empty of
           Inl p \<Rightarrow> Inl p
         | Inr hm \<Rightarrow> Inr (hm, None))"
    by (simp only: Fetch_update_seq)
qed

text \<open>
  The backend answers the first combination with 503: the update leaves a mapping as it
  is, and the fetch is the run of the three other combinations.
\<close>

theorem non_OK_status_skips_combination_witness:
  "updateAllHostMetrics fixture_Lib fixture_Config fixture_client
      [''node-9'' \<mapsto> []] prom_cpu_metric prom_avg_method ''5m'' = Inr [''node-9'' \<mapsto> []] \<and>
   FetchAllHostsMetrics fixture_Lib fixture_Config fixture_client (Some \<lparr>Duration = ''5m''\<rparr>) =
     (case update_seq fixture_Lib fixture_Config fixture_client ''5m''
             [(prom_avg_method, prom_mem_metric), (prom_std_method, prom_cpu_metric),
              (prom_std_method, prom_mem_metric)] Map.empty of
        Inl p \<Rightarrow> Inl p
      | Inr hm \<Rightarrow> Inr (hm, None))"
proof -
  have c: "combinations = [] @ (prom_avg_method, prom_cpu_metric) #
             [(prom_avg_method, prom_mem_metric), (prom_std_method, prom_cpu_metric),
              (prom_std_method, prom_mem_metric)]"
    by (simp add: combinations_def)
  have st: "StatusCode \<lparr>StatusCode = 503, Body = None\<rparr> \<noteq> StatusOK"
    by (simp add: StatusOK_def)
  have r: "NewRequest fixture_Lib ''GET''
             (promURLStr fixture_Config prom_avg_method prom_cpu_metric (Duration \<lparr>Duration = ''5m''\<rparr>)) =
           Some \<lparr>Method = ''GET'', URL = promURLStr fixture_Config prom_avg_method prom_cpu_metric ''5m'',
                 Header = []\<rparr>"
    by (simp add: fixture_NewRequest)
  from non_OK_status_skips_combination [of fixture_Lib fixture_Config prom_avg_method prom_cpu_metric "''5m''"
      "\<lparr>Method = ''GET'', URL = promURLStr fixture_Config prom_avg_method prom_cpu_metric ''5m'',
        Header = []\<rparr>" fixture_client "\<lparr>StatusCode = 503, Body = None\<rparr>" "[''node-9'' \<mapsto> []]"
      "[]" prom_avg_method prom_cpu_metric
      "[(prom_avg_method, prom_mem_metric), (prom_std_method, prom_cpu_metric),
        (prom_std_method, prom_mem_metric)]" "\<lparr>Duration = ''5m''\<rparr>"
      "\<lparr>Method = ''GET'', URL = promURLStr fixture_Config prom_avg_method prom_cpu_metric ''5m'',
        Header = []\<rparr>" "\<lparr>StatusCode = 503, Body = None\<rparr>"]
    c st r fixture_NewRequest fixture_Do_avg_cpu
  show ?thesis by simp
qed

text \<open>
  Claim C6: whenever the fetch returns, its error result is nil.
\<close>

theorem fetch_error_always_nil: "FetchAllHostsMetrics L cfg s window = Inr (hostMetrics, err) \<Longrightarrow> err = None"
  by (auto simp: FetchAllHostsMetrics_def split: sum.splits)

text \<open>
  The fetch on the backend of the examples: it returns, with two metrics for
  \<^verbatim>\<open>node-1\<close>, one for \<^verbatim>\<open>node-2\<close> and the nil error.
\<close>

theorem fetch_error_always_nil_witness:
  "FetchAllHostsMetrics fixture_Lib fixture_Config fixture_client (Some \<lparr>Duration = ''5m''\<rparr>) =
     Inr ([''node-1'' \<mapsto>
             [\<lparr>Name = ''avg_over_time'', Type = Memory, Rollup = ''5m'', Value = Finite (1 / 2)\<rparr>,
              \<lparr>Name = ''stddev_over_time'', Type = CPU, Rollup = ''5m'', Value = Finite (1 / 2)\<rparr>],
           ''node-2'' \<mapsto>
             [\<lparr>Name = ''stddev_over_time'', Type = CPU, Rollup = ''5m'', Value = Finite (85 / 2)\<rparr>]],
          None)"
proof -
  have "map_sum id fst
          (FetchAllHostsMetrics fixture_Lib fixture_Config fixture_client (Some \<lparr>Duration = ''5m''\<rparr>)) =
        Inr [''node-1'' \<mapsto>
             [\<lparr>Name = ''avg_over_time'', Type = Memory, Rollup = ''5m'', Value = Finite (1 / 2)\<rparr>,
              \<lparr>Name = ''stddev_over_time'', Type = CPU, Rollup = ''5m'', Value = Finite (1 / 2)\<rparr>],
           ''node-2'' \<mapsto>
             [\<lparr>Name = ''stddev_over_time'', Type = CPU, Rollup = ''5m'', Value = Finite (85 / 2)\<rparr>]]"
    by (simp add: FetchAllHostsMetrics_def eval_defs fixture_defs)
  then obtain err where
    "FetchAllHostsMetrics fixture_Lib fixture_Config fixture_client (Some \<lparr>Duration = ''5m''\<rparr>) =
       Inr ([''node-1'' \<mapsto>
             [\<lparr>Name = ''avg_over_time'', Type = Memory, Rollup = ''5m'', Value = Finite (1 / 2)\<rparr>,
              \<lparr>Name = ''stddev_over_time'', Type = CPU, Rollup = ''5m'', Value = Finite (1 / 2)\<rparr>],
           ''node-2'' \<mapsto>
             [\<lparr>Name = ''stddev_over_time'', Type = CPU, Rollup = ''5m'', Value = Finite (85 / 2)\<rparr>]],
          err)"
    by (cases "FetchAllHostsMetrics fixture_Lib fixture_Config fixture_client (Some \<lparr>Duration = ''5m''\<rparr>)")
      auto
  with fetch_error_always_nil [OF this] show ?thesis by simp
qed

text \<open>
  Claim C2 says that no failed request makes the fetch crash. The code drops the error of
  \<^verbatim>\<open>client.Do\<close> and reads \<^verbatim>\<open>resp.StatusCode\<close>: with a client whose requests all fail, the
  response is nil and the fetch panics at the first combination, whatever the
  configuration and the window.
\<close>

theorem transport_failure_panics: "FetchAllHostsMetrics L cfg \<lparr>client_Do = (\<lambda>req. None)\<rparr> (Some w) = Inl NilDereference"
  by (simp add: FetchAllHostsMetrics_def updateAllHostMetrics_def split: option.splits)

end
